theory Spec2Isabelle
  imports Complex_Main "HOL-Library.Word"
begin

section \<open>Go scalar types\<close>

text \<open>
  The program is built for a 64-bit target: \<open>int\<close> and \<open>uint\<close> are 64 bits wide.
  Signed values are words read with \<open>sint\<close>; comparisons on \<open>int\<close> are the signed ones.
\<close>

type_synonym uint32 = "32 word"
type_synonym uint64 = "64 word"
type_synonym uint = "64 word"
type_synonym go_int = "64 word"
type_synonym int32 = "32 word"

text \<open>An \<open>error\<close> value is its message; \<open>None\<close> is \<open>nil\<close>.\<close>

type_synonym error = "string option"

text \<open>
  \<open>log.Fatalf\<close> writes its message and exits the process: a function that calls it
  does not return to its caller.
\<close>

datatype 'a outcome = Fatalf string | Returned 'a

subsection \<open>Decimal rendering (the verb \<open>%d\<close>)\<close>

fun show_nat :: "nat \<Rightarrow> string" where
  "show_nat n = (if n < 10 then [''0123456789'' ! n]
                 else show_nat (n div 10) @ [''0123456789'' ! (n mod 10)])"

declare show_nat.simps [simp del]

definition show_int :: "int \<Rightarrow> string" where
  "show_int i = (if i < 0 then ''-'' @ show_nat (nat (- i)) else show_nat (nat i))"

section \<open>Floating point (IEEE 754 binary32 and binary64)\<close>

text \<open>
  A floating-point value is a finite number (its exact value, a rational), a negative
  zero, an infinity or a NaN. \<open>Finite 0\<close> is the positive zero. Arithmetic rounds the
  exact result to the nearest value of the format, ties to the even significand.
\<close>

datatype ieee = Finite rat | NegZero | PosInf | NegInf | NaN

type_synonym float32 = ieee
type_synonym float64 = ieee

definition pow2 :: "int \<Rightarrow> rat" where
  "pow2 e = (if 0 \<le> e then 2 ^ nat e else 1 / 2 ^ nat (- e))"

fun bit_length :: "nat \<Rightarrow> nat" where
  "bit_length n = (if n = 0 then 0 else Suc (bit_length (n div 2)))"

declare bit_length.simps [simp del]

text \<open>The binary exponent of a positive rational \<open>q\<close>: the \<open>e\<close> with \<open>2^e \<le> q < 2^(e+1)\<close>.\<close>

definition ilog2 :: "rat \<Rightarrow> int" where
  "ilog2 q = (if 1 \<le> q then int (bit_length (nat \<lfloor>q\<rfloor>)) - 1
              else - int (bit_length (nat \<lceil>1 / q\<rceil> - 1)))"

definition round_half_even :: "rat \<Rightarrow> int" where
  "round_half_even q =
    (let n = \<lfloor>q\<rfloor>; r = q - of_int n
     in if r < 1 / 2 then n else if 1 / 2 < r then n + 1 else if even n then n else n + 1)"

text \<open>
  Rounding a rational \<open>q \<ge> 0\<close> to the format with \<open>p\<close> bits of significand and
  exponents \<open>emin .. emax\<close>: below \<open>2^emin\<close> the spacing stays that of the subnormal
  numbers; a result beyond the largest finite number is the infinity.
\<close>

definition round_pos :: "nat \<Rightarrow> int \<Rightarrow> int \<Rightarrow> rat \<Rightarrow> ieee" where
  "round_pos p emin emax q =
    (if q = 0 then Finite 0
     else let e = max (ilog2 q) emin;
              ulp = pow2 (e - int p + 1);
              v = of_int (round_half_even (q / ulp)) * ulp
          in if pow2 (emax + 1) \<le> v then PosInf else Finite v)"

fun ieee_neg :: "ieee \<Rightarrow> ieee" where
  "ieee_neg (Finite q) = (if q = 0 then NegZero else Finite (- q))"
| "ieee_neg NegZero = Finite 0"
| "ieee_neg PosInf = NegInf"
| "ieee_neg NegInf = PosInf"
| "ieee_neg NaN = NaN"

fun is_neg :: "ieee \<Rightarrow> bool" where
  "is_neg (Finite q) = (q < 0)"
| "is_neg NegZero = True"
| "is_neg PosInf = False"
| "is_neg NegInf = True"
| "is_neg NaN = False"

fun is_zero :: "ieee \<Rightarrow> bool" where
  "is_zero (Finite q) = (q = 0)"
| "is_zero NegZero = True"
| "is_zero PosInf = False"
| "is_zero NegInf = False"
| "is_zero NaN = False"

fun is_inf :: "ieee \<Rightarrow> bool" where
  "is_inf (Finite q) = False"
| "is_inf NegZero = False"
| "is_inf PosInf = True"
| "is_inf NegInf = True"
| "is_inf NaN = False"

fun is_finite :: "ieee \<Rightarrow> bool" where
  "is_finite (Finite q) = True"
| "is_finite NegZero = True"
| "is_finite PosInf = False"
| "is_finite NegInf = False"
| "is_finite NaN = False"

fun magnitude :: "ieee \<Rightarrow> rat" where
  "magnitude (Finite q) = \<bar>q\<bar>"
| "magnitude NegZero = 0"
| "magnitude PosInf = 0"
| "magnitude NegInf = 0"
| "magnitude NaN = 0"

definition with_sign :: "bool \<Rightarrow> ieee \<Rightarrow> ieee" where
  "with_sign s x = (if s then ieee_neg x else x)"

definition round_f32 :: "rat \<Rightarrow> float32" where
  "round_f32 q = round_pos 24 (- 126) 127 q"

definition round_f64 :: "rat \<Rightarrow> float64" where
  "round_f64 q = round_pos 53 (- 1022) 1023 q"

text \<open>The conversions \<open>float32(n)\<close> of unsigned integers, and \<open>float64\<close> of both.\<close>

definition f32_of_uint32 :: "uint32 \<Rightarrow> float32" where
  "f32_of_uint32 w = round_f32 (of_nat (unat w))"

definition f32_of_uint64 :: "uint64 \<Rightarrow> float32" where
  "f32_of_uint64 w = round_f32 (of_nat (unat w))"

definition f64_of_uint :: "uint \<Rightarrow> float64" where
  "f64_of_uint w = round_f64 (of_nat (unat w))"

definition f64_of_f32 :: "float32 \<Rightarrow> float64" where
  "f64_of_f32 x = x"

text \<open>Division of two \<open>float32\<close> values.\<close>

definition f32_div :: "float32 \<Rightarrow> float32 \<Rightarrow> float32" where
  "f32_div x y =
    (if x = NaN \<or> y = NaN then NaN
     else if is_inf x then (if is_inf y then NaN else with_sign (is_neg x \<noteq> is_neg y) PosInf)
     else if is_inf y then with_sign (is_neg x \<noteq> is_neg y) (Finite 0)
     else if is_zero y then (if is_zero x then NaN else with_sign (is_neg x \<noteq> is_neg y) PosInf)
     else with_sign (is_neg x \<noteq> is_neg y) (round_f32 (magnitude x / magnitude y)))"

section \<open>The telemetry library (NVML) as an external collaborator\<close>

type_synonym Return = int32

definition SUCCESS :: Return where
  "SUCCESS = 0"

datatype nvml_Device = NilDevice | DeviceHandle nat

datatype TemperatureSensors = TEMPERATURE_GPU | TEMPERATURE_COUNT

record Memory =
  Total :: uint64
  Free :: uint64
  Used :: uint64

record Utilization =
  Gpu :: uint32
  MemoryRate :: uint32

text \<open>
  What the library answers to each call the program makes. Nothing is assumed about the
  answers: a call may fail with any status, and a failed call may carry any value.
\<close>

record nvml =
  nvml_Init :: Return
  nvml_Shutdown :: Return
  nvml_ErrorString :: "Return \<Rightarrow> string"
  nvml_DeviceGetCount :: "go_int \<times> Return"
  nvml_DeviceGetHandleByIndex :: "go_int \<Rightarrow> nvml_Device \<times> Return"
  nvml_GetUUID :: "nvml_Device \<Rightarrow> string \<times> Return"
  nvml_GetTemperature :: "nvml_Device \<Rightarrow> TemperatureSensors \<Rightarrow> uint32 \<times> Return"
  nvml_GetPowerUsage :: "nvml_Device \<Rightarrow> uint32 \<times> Return"
  nvml_GetMemoryInfo :: "nvml_Device \<Rightarrow> Memory \<times> Return"
  nvml_GetUtilizationRates :: "nvml_Device \<Rightarrow> Utilization \<times> Return"

text \<open>The calls \<open>GetDevice\<close> makes to the library, in order.\<close>

datatype call =
  CallDeviceGetCount
  | CallDeviceGetHandleByIndex go_int
  | CallGetUUID nvml_Device

section \<open>The device accessor\<close>

record Device =
  Index :: go_int
  UUID :: string
  Handle :: nvml_Device

definition Device_zero :: Device where
  "Device_zero = \<lparr>Index = 0, UUID = [], Handle = NilDevice\<rparr>"

text \<open>
  \<open>GetDevice\<close>: the calls made to the library, and either the fatal exit or the
  returned pair.
\<close>

definition GetDevice :: "nvml \<Rightarrow> go_int \<Rightarrow> call list \<times> (Device \<times> error) outcome" where
  "GetDevice lib index =
    (let (count, ret) = nvml_DeviceGetCount lib;
         calls1 = [CallDeviceGetCount]
     in if ret \<noteq> SUCCESS
        then (calls1, Fatalf (''Unable to get device count: '' @ nvml_ErrorString lib ret))
        else if count \<le>s index - 1
        then (calls1, Fatalf ''Device index out of range'')
        else
          let (device, ret) = nvml_DeviceGetHandleByIndex lib index;
              calls2 = calls1 @ [CallDeviceGetHandleByIndex index]
          in if ret \<noteq> SUCCESS
             then (calls2, Returned (Device_zero,
                     Some (''unable to get device at index '' @ show_int (sint index)
                           @ '': '' @ nvml_ErrorString lib ret)))
             else
               let (uuid, ret) = nvml_GetUUID lib device;
                   calls3 = calls2 @ [CallGetUUID device]
               in if ret \<noteq> SUCCESS
                  then (calls3, Returned (Device_zero,
                          Some (''unable to get uuid of device at index '' @ show_int (sint index)
                                @ '': '' @ nvml_ErrorString lib ret)))
                  else (calls3, Returned (\<lparr>Index = index, UUID = uuid, Handle = device\<rparr>, None)))"

definition deviceHandleErrorString :: "nvml \<Rightarrow> Device \<Rightarrow> Return \<Rightarrow> error" where
  "deviceHandleErrorString lib d ret = Some (nvml_ErrorString lib ret)"

definition GetTemperature :: "nvml \<Rightarrow> Device \<Rightarrow> uint \<times> error" where
  "GetTemperature lib d =
    (let (temp, ret) = nvml_GetTemperature lib (Handle d) TEMPERATURE_GPU
     in if ret \<noteq> SUCCESS then (0, deviceHandleErrorString lib d ret)
        else (ucast temp, None))"

definition GetPower :: "nvml \<Rightarrow> Device \<Rightarrow> float32 \<times> error" where
  "GetPower lib d =
    (let (power, ret) = nvml_GetPowerUsage lib (Handle d)
     in if ret \<noteq> SUCCESS then (Finite 0, deviceHandleErrorString lib d ret)
        else let actual = f32_div (f32_of_uint32 power) (Finite 1000)
             in (actual, None))"

definition GetUtilization :: "nvml \<Rightarrow> Device \<Rightarrow> uint \<times> float32 \<times> float32 \<times> error" where
  "GetUtilization lib d =
    (let (memory, ret) = nvml_GetMemoryInfo lib (Handle d)
     in if ret \<noteq> SUCCESS then (0, Finite 0, Finite 0, deviceHandleErrorString lib d ret)
        else
          let total = f32_div (f32_of_uint64 (Total memory)) (Finite (2 ^ 30));
              used = f32_div (f32_of_uint64 (Used memory)) (Finite (2 ^ 30));
              (util, ret) = nvml_GetUtilizationRates lib (Handle d)
          in if ret \<noteq> SUCCESS then (0, Finite 0, Finite 0, deviceHandleErrorString lib d ret)
             else (ucast (Gpu util), total, used, None))"

section \<open>The metrics record\<close>

record Metrics =
  Temperature :: uint
  Power :: float32
  GpuUsage :: uint
  MemoryTotal :: float32
  MemoryUsed :: float32

definition Metrics_zero :: Metrics where
  "Metrics_zero = \<lparr>Temperature = 0, Power = Finite 0, GpuUsage = 0,
                    MemoryTotal = Finite 0, MemoryUsed = Finite 0\<rparr>"

definition GetMetrics :: "nvml \<Rightarrow> Device \<Rightarrow> Metrics \<times> error" where
  "GetMetrics lib d =
    (let (temp, err) = GetTemperature lib d
     in if err \<noteq> None then (Metrics_zero, err)
        else
          let (power, err) = GetPower lib d
          in if err \<noteq> None then (Metrics_zero, err)
             else
               let (gpu, totalMemory, usedMemory, err) = GetUtilization lib d
               in if err \<noteq> None then (Metrics_zero, err)
                  else (\<lparr>Temperature = temp, Power = power, GpuUsage = gpu,
                          MemoryTotal = totalMemory, MemoryUsed = usedMemory\<rparr>, None))"

subsection \<open>The delimited-string form\<close>

text \<open>
  The verb \<open>%.Nf\<close>: the exact value rounded to \<open>N\<close> decimals (ties to even), the integer
  part, a point and \<open>N\<close> digits; a NaN and the infinities are written as words.
\<close>

definition fixed_decimal :: "nat \<Rightarrow> rat \<Rightarrow> string" where
  "fixed_decimal prec q =
    (let n = nat (round_half_even (q * 10 ^ prec));
         decimals = show_nat (n mod 10 ^ prec)
     in show_nat (n div 10 ^ prec) @
        (if prec = 0 then [] else ''.'' @ replicate (prec - length decimals) (CHR ''0'') @ decimals))"

fun fmt_f :: "nat \<Rightarrow> ieee \<Rightarrow> string" where
  "fmt_f prec (Finite q) = (if q < 0 then ''-'' else []) @ fixed_decimal prec \<bar>q\<bar>"
| "fmt_f prec NegZero = ''-'' @ fixed_decimal prec 0"
| "fmt_f prec PosInf = ''+Inf''"
| "fmt_f prec NegInf = ''-Inf''"
| "fmt_f prec NaN = ''NaN''"

definition fmt_d :: "uint \<Rightarrow> string" where
  "fmt_d w = show_nat (unat w)"

definition String :: "Metrics \<Rightarrow> string" where
  "String m = fmt_d (Temperature m) @ '','' @ fmt_f 2 (Power m) @ '','' @ fmt_d (GpuUsage m)
              @ '','' @ fmt_f 1 (MemoryTotal m) @ '','' @ fmt_f 2 (MemoryUsed m)"

subsection \<open>The JSON form\<close>

text \<open>
  \<open>json.Marshal\<close> of a struct is an object with one member per field, in the order of
  the fields, named by the field's \<open>json\<close> tag. A number that is a NaN or an infinity
  has no JSON form: the call fails. The object is kept as its list of members; how a
  number is spelled is the standard library's business.
\<close>

datatype json_number = JUint uint | JFloat32 float32

type_synonym json_object = "(string \<times> json_number) list"

definition Metrics_tags :: "string list" where
  "Metrics_tags = [''temperature'', ''power'', ''gpu_usage'', ''memory_total'', ''memory_used'']"

definition Metrics_tags_part_000 :: "string list" where
  "Metrics_tags_part_000 =
     [''temperature'', ''power'', ''gpu_usage'', ''memory_total'', ''memory_available'']"

fun unsupported_value :: "ieee \<Rightarrow> string" where
  "unsupported_value PosInf = ''json: unsupported value: +Inf''"
| "unsupported_value NegInf = ''json: unsupported value: -Inf''"
| "unsupported_value x = ''json: unsupported value: NaN''"

definition json_Marshal :: "string list \<Rightarrow> Metrics \<Rightarrow> json_object \<times> error" where
  "json_Marshal tags m =
    (if \<not> is_finite (Power m) then ([], Some (unsupported_value (Power m)))
     else if \<not> is_finite (MemoryTotal m) then ([], Some (unsupported_value (MemoryTotal m)))
     else if \<not> is_finite (MemoryUsed m) then ([], Some (unsupported_value (MemoryUsed m)))
     else (zip tags [JUint (Temperature m), JFloat32 (Power m), JUint (GpuUsage m),
                     JFloat32 (MemoryTotal m), JFloat32 (MemoryUsed m)], None))"

section \<open>The cloud sink\<close>

datatype StandardUnit = StandardUnitPercent | StandardUnitMegabytes | StandardUnitNone

record Dimension =
  Name :: string
  DimensionValue :: string

record MetricDatum =
  MetricName :: string
  Dimensions :: "Dimension list"
  Unit :: StandardUnit
  StorageResolution :: int32
  Value :: float64

record PutMetricDataInput =
  MetricData :: "MetricDatum list"
  Namespace :: string

text \<open>The client is what the service answers to a submission: \<open>None\<close> when it went through.\<close>

type_synonym cloudwatch_Client = "PutMetricDataInput \<Rightarrow> error"

text \<open>\<open>PublishCloudwatchMetrics\<close>: the submissions sent, and the error returned.\<close>

definition PublishCloudwatchMetrics ::
  "Metrics \<Rightarrow> cloudwatch_Client \<Rightarrow> string \<Rightarrow> string \<Rightarrow> int32 \<Rightarrow> string
     \<Rightarrow> PutMetricDataInput list \<times> error" where
  "PublishCloudwatchMetrics m client instanceID instanceType resolution namespace =
    (let dimensions =
           [\<lparr>Name = ''InstancesId'', DimensionValue = instanceID\<rparr>,
            \<lparr>Name = ''InstanceType'', DimensionValue = instanceType\<rparr>];
         metricData =
           [\<lparr>MetricName = ''GPU Usage'', Dimensions = dimensions, Unit = StandardUnitPercent,
             StorageResolution = resolution, Value = f64_of_uint (GpuUsage m)\<rparr>,
            \<lparr>MetricName = ''Memory Used'', Dimensions = dimensions, Unit = StandardUnitMegabytes,
             StorageResolution = resolution, Value = f64_of_f32 (MemoryUsed m)\<rparr>,
            \<lparr>MetricName = ''Temperature (C)'', Dimensions = dimensions, Unit = StandardUnitNone,
             StorageResolution = resolution, Value = f64_of_uint (Temperature m)\<rparr>,
            \<lparr>MetricName = ''Power (W)'', Dimensions = dimensions, Unit = StandardUnitNone,
             StorageResolution = resolution, Value = f64_of_f32 (Power m)\<rparr>];
         input = \<lparr>MetricData = metricData, Namespace = namespace\<rparr>;
         err = client input
     in case err of
          Some e \<Rightarrow> ([input], Some (''Unable to publish metrics to CloudWatch: '' @ e))
        | None \<Rightarrow> ([input], None))"

section \<open>The sampling loop\<close>

text \<open>What the loop does that the outside can see: a line printed, a pause (in nanoseconds).\<close>

datatype event = Println json_object | Sleep nat

definition Second :: nat where
  "Second = 1000000000"

text \<open>
  One pass through the body of the loop, against the library's answers at that moment:
  the fatal exit, or the events of the pass.
\<close>

definition main_iteration :: "string list \<Rightarrow> nvml \<Rightarrow> Device \<Rightarrow> event list outcome" where
  "main_iteration tags lib device =
    (let (metrics, err) = GetMetrics lib device
     in case err of
          Some e \<Rightarrow> Fatalf (''Unable to get metrics: '' @ e)
        | None \<Rightarrow>
            (let (jsonMetrics, err) = json_Marshal tags metrics
             in case err of
                  Some e \<Rightarrow> Fatalf (''Unable to marshal metrics to JSON: '' @ e)
                | None \<Rightarrow> Returned [Println jsonMetrics, Sleep (Second * 5)]))"

text \<open>
  The loop \<open>for { ... }\<close> from pass \<open>k\<close> on, where \<open>libs k\<close> is what the library answers
  during pass \<open>k\<close>. It has no exit but the fatal one: \<open>Some msg\<close> is that exit, \<open>None\<close> is
  running forever.
\<close>

partial_function (option) main_loop :: "string list \<Rightarrow> (nat \<Rightarrow> nvml) \<Rightarrow> Device \<Rightarrow> nat \<Rightarrow> string option" where
  "main_loop tags libs device k =
    (case main_iteration tags (libs k) device of
       Fatalf msg \<Rightarrow> Some msg
     | Returned evs \<Rightarrow> main_loop tags libs device (Suc k))"

text \<open>The events of the first \<open>n\<close> passes from pass \<open>k\<close> on, and the fatal exit if one is reached.\<close>

fun main_trace :: "string list \<Rightarrow> (nat \<Rightarrow> nvml) \<Rightarrow> Device \<Rightarrow> nat \<Rightarrow> nat \<Rightarrow> event list \<times> string option" where
  "main_trace tags libs device k 0 = ([], None)"
| "main_trace tags libs device k (Suc n) =
    (case main_iteration tags (libs k) device of
       Fatalf msg \<Rightarrow> ([], Some msg)
     | Returned evs \<Rightarrow>
         (let (rest, exit) = main_trace tags libs device (Suc k) n in (evs @ rest, exit)))"

section \<open>A library with one device, for concrete runs\<close>

definition stub_ErrorString :: "Return \<Rightarrow> string" where
  "stub_ErrorString ret =
    (if ret = 0 then ''Success'' else if ret = 2 then ''Invalid Argument'' else ''Unknown Error'')"

definition stub_device :: Device where
  "stub_device = \<lparr>Index = 0, UUID = ''GPU-0'', Handle = DeviceHandle 0\<rparr>"

definition stub_lib :: nvml where
  "stub_lib =
    \<lparr>nvml_Init = SUCCESS,
     nvml_Shutdown = SUCCESS,
     nvml_ErrorString = stub_ErrorString,
     nvml_DeviceGetCount = (1, SUCCESS),
     nvml_DeviceGetHandleByIndex =
       (\<lambda>i. if i = 0 then (DeviceHandle 0, SUCCESS) else (NilDevice, 2)),
     nvml_GetUUID = (\<lambda>h. if h = DeviceHandle 0 then (''GPU-0'', SUCCESS) else ([], 2)),
     nvml_GetTemperature = (\<lambda>h sensor. (45, SUCCESS)),
     nvml_GetPowerUsage = (\<lambda>h. (128000, SUCCESS)),
     nvml_GetMemoryInfo =
       (\<lambda>h. (\<lparr>Total = 17179869184, Free = 12884901888, Used = 4294967296\<rparr>, SUCCESS)),
     nvml_GetUtilizationRates = (\<lambda>h. (\<lparr>Gpu = 50, MemoryRate = 20\<rparr>, SUCCESS))\<rparr>"

definition failing_lib :: nvml where
  "failing_lib =
    stub_lib\<lparr>nvml_GetTemperature := (\<lambda>h sensor. (45, 999)),
             nvml_GetPowerUsage := (\<lambda>h. (128000, 999)),
             nvml_GetMemoryInfo :=
               (\<lambda>h. (\<lparr>Total = 17179869184, Free = 12884901888, Used = 4294967296\<rparr>, 999))\<rparr>"

definition util_failing_lib :: nvml where
  "util_failing_lib =
    stub_lib\<lparr>nvml_GetUtilizationRates := (\<lambda>h. (\<lparr>Gpu = 50, MemoryRate = 20\<rparr>, 999))\<rparr>"

text \<open>All four reads of a device succeed.\<close>

definition reads_ok :: "nvml \<Rightarrow> Device \<Rightarrow> bool" where
  "reads_ok lib d =
    (snd (nvml_GetTemperature lib (Handle d) TEMPERATURE_GPU) = SUCCESS
     \<and> snd (nvml_GetPowerUsage lib (Handle d)) = SUCCESS
     \<and> snd (nvml_GetMemoryInfo lib (Handle d)) = SUCCESS
     \<and> snd (nvml_GetUtilizationRates lib (Handle d)) = SUCCESS)"

section \<open>Reading a rendered line back\<close>

text \<open>
  The vocabulary for saying what a rendered line looks like: its pieces between the
  separators, and the shape of a number written with a fixed count of decimals (an
  optional minus sign, at least one digit, a point, and exactly that many digits).
\<close>

fun split_on :: "char \<Rightarrow> string \<Rightarrow> string list" where
  "split_on c [] = [[]]"
| "split_on c (x # xs) =
    (if x = c then [] # split_on c xs
     else (case split_on c xs of [] \<Rightarrow> [[x]] | piece # pieces \<Rightarrow> (x # piece) # pieces))"

definition is_digit :: "char \<Rightarrow> bool" where
  "is_digit c = (c \<in> set ''0123456789'')"

definition is_fixed_decimal :: "nat \<Rightarrow> string \<Rightarrow> bool" where
  "is_fixed_decimal prec s =
    (let body = (case s of [] \<Rightarrow> [] | c # cs \<Rightarrow> if c = CHR ''-'' then cs else s);
         whole = takeWhile is_digit body;
         rest = drop (length whole) body
     in whole \<noteq> [] \<and>
        (case rest of [] \<Rightarrow> False
         | c # decimals \<Rightarrow> c = CHR ''.'' \<and> length decimals = prec \<and> list_all is_digit decimals))"

text \<open>The number a rendered decimal stands for.\<close>

definition digit_value :: "char \<Rightarrow> nat" where
  "digit_value c = (if is_digit c then of_char c - 48 else 0)"

definition read_nat :: "string \<Rightarrow> nat" where
  "read_nat s = foldl (\<lambda>a c. 10 * a + digit_value c) 0 s"

definition read_decimal :: "string \<Rightarrow> rat" where
  "read_decimal s =
    (let negative = (case s of [] \<Rightarrow> False | c # cs \<Rightarrow> c = CHR ''-'');
         body = (if negative then tl s else s);
         whole = takeWhile is_digit body;
         decimals = drop (Suc (length whole)) body;
         v = of_nat (read_nat whole) + of_nat (read_nat decimals) / 10 ^ length decimals
     in if negative then - v else v)"

text \<open>A finite value rounded to \<open>prec\<close> decimals, ties to the even last digit.\<close>

fun rounded_decimal :: "nat \<Rightarrow> ieee \<Rightarrow> rat" where
  "rounded_decimal prec (Finite q) =
     (if q < 0 then - 1 else 1) * of_int (round_half_even (\<bar>q\<bar> * 10 ^ prec)) / 10 ^ prec"
| "rounded_decimal prec x = 0"

text \<open>
  A \<open>float32\<close> result \<open>x\<close> stands for the exact quantity \<open>r \<ge> 0\<close>: it is a finite,
  non-negative number within the relative error \<open>2^-22\<close> of \<open>r\<close> (two roundings to 24
  bits, one of the integer and one of the quotient).
\<close>

definition within_float32 :: "ieee \<Rightarrow> rat \<Rightarrow> bool" where
  "within_float32 x r = (case x of Finite w \<Rightarrow> 0 \<le> w \<and> \<bar>w - r\<bar> \<le> r / 2 ^ 22 | _ \<Rightarrow> False)"

text \<open>Two clients of the cloud service: one that accepts, one whose transport fails.\<close>

definition accepting_client :: cloudwatch_Client where
  "accepting_client input = None"

definition failing_client :: cloudwatch_Client where
  "failing_client input = Some ''operation error CloudWatch: PutMetricData, request send failed''"

definition sample_metrics :: Metrics where
  "sample_metrics = \<lparr>Temperature = 45, Power = Finite (1025 / 8), GpuUsage = 50,
                      MemoryTotal = Finite 16, MemoryUsed = Finite (255 / 64)\<rparr>"

definition nan_metrics :: Metrics where
  "nan_metrics = \<lparr>Temperature = 0, Power = NaN, GpuUsage = 0,
                   MemoryTotal = Finite 0, MemoryUsed = Finite 0\<rparr>"

definition stub_metrics :: Metrics where
  "stub_metrics = \<lparr>Temperature = 45, Power = Finite 128, GpuUsage = 50,
                    MemoryTotal = Finite 16, MemoryUsed = Finite 4\<rparr>"

section \<open>Resolving the device\<close>

lemmas float_eval =
  f32_div_def f32_of_uint32_def f32_of_uint64_def round_f32_def round_pos_def ilog2_def
  pow2_def round_half_even_def with_sign_def bit_length.simps Let_def

lemma sle_pred:
  fixes c i :: "64 word"
  assumes "c <s i"
  shows "c \<le>s i - 1"
proof -
  have lo: "- (2 ^ 63) \<le> sint c"
    using sint_ge [of c] by simp
  have hi: "sint i < 2 ^ 63"
    using sint_lt [of i] by simp
  have ci: "sint c < sint i"
    using assms by (simp add: word_sless_alt)
  have "sint (i - 1) = signed_take_bit 63 (sint i - 1)"
    by (simp add: sint_word_ariths)
  also have "\<dots> = sint i - 1"
    by (rule signed_take_bit_int_eq_self) (use lo hi ci in auto)
  finally show ?thesis
    using ci by (simp add: word_sle_eq)
qed

text \<open>
  An index strictly beyond the count is refused before the handle is asked for: the
  count is the only call made.
\<close>

lemma GetDevice_beyond_count:
  assumes "snd (nvml_DeviceGetCount lib) = SUCCESS"
    and "fst (nvml_DeviceGetCount lib) <s index"
  shows "GetDevice lib index = ([CallDeviceGetCount], Fatalf ''Device index out of range'')"
  using assms by (cases "nvml_DeviceGetCount lib") (simp add: GetDevice_def sle_pred)

text \<open>
  C1. An index equal to the number of devices is out of range (indices start at 0), and
  the claim has \<open>GetDevice\<close> fail with the out-of-range error before a handle is
  resolved. The guard \<open>count <= index-1\<close> lets that index through: with one device and
  index 1, \<open>GetDevice\<close> goes on to ask the library for the handle at index 1, and what
  it returns is the library's error for that call, not the out-of-range exit.
\<close>

theorem GetDevice_index_equal_count:
  "GetDevice stub_lib 1 =
     ([CallDeviceGetCount, CallDeviceGetHandleByIndex 1],
      Returned (Device_zero, Some ''unable to get device at index 1: Invalid Argument''))"
  by (simp add: GetDevice_def stub_lib_def SUCCESS_def stub_ErrorString_def show_int_def
      show_nat.simps word_sle_eq)

text \<open>
  C9. Whenever \<open>GetDevice\<close> succeeds, the device it returns carries the requested
  index, the handle the library resolved for that index, and the identifier the library
  gave for that handle.
\<close>

theorem GetDevice_success_fields:
  assumes "GetDevice lib index = (calls, Returned (d, None))"
  shows "Index d = index
         \<and> Handle d = fst (nvml_DeviceGetHandleByIndex lib index)
         \<and> UUID d = fst (nvml_GetUUID lib (fst (nvml_DeviceGetHandleByIndex lib index)))"
  using assms by (auto simp: GetDevice_def Let_def split: prod.splits if_splits)

theorem GetDevice_success_fields_witness:
  "GetDevice stub_lib 0 =
     ([CallDeviceGetCount, CallDeviceGetHandleByIndex 0, CallGetUUID (DeviceHandle 0)],
      Returned (stub_device, None))
   \<and> Index stub_device = 0
   \<and> Handle stub_device = fst (nvml_DeviceGetHandleByIndex stub_lib 0)
   \<and> UUID stub_device = fst (nvml_GetUUID stub_lib (fst (nvml_DeviceGetHandleByIndex stub_lib 0)))"
proof -
  have run: "GetDevice stub_lib 0 =
     ([CallDeviceGetCount, CallDeviceGetHandleByIndex 0, CallGetUUID (DeviceHandle 0)],
      Returned (stub_device, None))"
    by (simp add: GetDevice_def stub_lib_def SUCCESS_def stub_device_def word_sle_eq)
  show ?thesis
    using run GetDevice_success_fields [OF run] by simp
qed

section \<open>Reading the device\<close>

text \<open>
  C8. When the library's read fails, each getter returns the zero value in every result
  and an error whose message is the library's error string for the status of the failed
  read. \<open>GetUtilization\<close> makes two reads (memory, then utilization rates); a failure
  of either gives the same shape, and the memory already read is not returned when the
  second read fails.
\<close>

theorem getters_fail_with_zero_and_error_string:
  "(snd (nvml_GetTemperature lib (Handle d) TEMPERATURE_GPU) \<noteq> SUCCESS \<longrightarrow>
      GetTemperature lib d =
        (0, Some (nvml_ErrorString lib (snd (nvml_GetTemperature lib (Handle d) TEMPERATURE_GPU)))))
   \<and> (snd (nvml_GetPowerUsage lib (Handle d)) \<noteq> SUCCESS \<longrightarrow>
      GetPower lib d =
        (Finite 0, Some (nvml_ErrorString lib (snd (nvml_GetPowerUsage lib (Handle d))))))
   \<and> (snd (nvml_GetMemoryInfo lib (Handle d)) \<noteq> SUCCESS \<longrightarrow>
      GetUtilization lib d =
        (0, Finite 0, Finite 0,
         Some (nvml_ErrorString lib (snd (nvml_GetMemoryInfo lib (Handle d))))))
   \<and> (snd (nvml_GetMemoryInfo lib (Handle d)) = SUCCESS
        \<and> snd (nvml_GetUtilizationRates lib (Handle d)) \<noteq> SUCCESS \<longrightarrow>
      GetUtilization lib d =
        (0, Finite 0, Finite 0,
         Some (nvml_ErrorString lib (snd (nvml_GetUtilizationRates lib (Handle d))))))"
  by (simp add: GetTemperature_def GetPower_def GetUtilization_def deviceHandleErrorString_def
      Let_def split: prod.splits)

theorem getters_fail_with_zero_and_error_string_witness:
  "GetTemperature failing_lib stub_device = (0, Some ''Unknown Error'')
   \<and> GetPower failing_lib stub_device = (Finite 0, Some ''Unknown Error'')
   \<and> GetUtilization failing_lib stub_device = (0, Finite 0, Finite 0, Some ''Unknown Error'')
   \<and> GetUtilization util_failing_lib stub_device = (0, Finite 0, Finite 0, Some ''Unknown Error'')"
proof -
  have t: "snd (nvml_GetTemperature failing_lib (Handle stub_device) TEMPERATURE_GPU) \<noteq> SUCCESS"
    by (simp add: failing_lib_def stub_lib_def SUCCESS_def)
  have p: "snd (nvml_GetPowerUsage failing_lib (Handle stub_device)) \<noteq> SUCCESS"
    by (simp add: failing_lib_def stub_lib_def SUCCESS_def)
  have m: "snd (nvml_GetMemoryInfo failing_lib (Handle stub_device)) \<noteq> SUCCESS"
    by (simp add: failing_lib_def stub_lib_def SUCCESS_def)
  have u: "snd (nvml_GetMemoryInfo util_failing_lib (Handle stub_device)) = SUCCESS
           \<and> snd (nvml_GetUtilizationRates util_failing_lib (Handle stub_device)) \<noteq> SUCCESS"
    by (simp add: util_failing_lib_def stub_lib_def SUCCESS_def)
  have s1: "nvml_ErrorString failing_lib 999 = ''Unknown Error''"
    by (simp add: failing_lib_def stub_lib_def stub_ErrorString_def)
  have s2: "nvml_ErrorString util_failing_lib 999 = ''Unknown Error''"
    by (simp add: util_failing_lib_def stub_lib_def stub_ErrorString_def)
  have r1: "snd (nvml_GetTemperature failing_lib (Handle stub_device) TEMPERATURE_GPU) = 999"
    "snd (nvml_GetPowerUsage failing_lib (Handle stub_device)) = 999"
    "snd (nvml_GetMemoryInfo failing_lib (Handle stub_device)) = 999"
    by (simp_all add: failing_lib_def stub_lib_def)
  have r2: "snd (nvml_GetUtilizationRates util_failing_lib (Handle stub_device)) = 999"
    by (simp add: util_failing_lib_def stub_lib_def)
  show ?thesis
    using getters_fail_with_zero_and_error_string [of failing_lib stub_device]
      getters_fail_with_zero_and_error_string [of util_failing_lib stub_device]
      t p m u
    by (simp add: s1 s2 r1 r2)
qed

text \<open>
  C4. If any one of the four reads fails, \<open>GetMetrics\<close> returns the empty record and an
  error: values read before the failure are not passed on.
\<close>

theorem GetMetrics_failure_is_empty:
  assumes "\<not> reads_ok lib d"
  shows "fst (GetMetrics lib d) = Metrics_zero \<and> snd (GetMetrics lib d) \<noteq> None"
  using assms
  by (auto simp add: reads_ok_def GetMetrics_def GetTemperature_def GetPower_def
      GetUtilization_def deviceHandleErrorString_def Let_def split: prod.splits)

theorem GetMetrics_failure_is_empty_witness:
  "\<not> reads_ok util_failing_lib stub_device
   \<and> fst (GetTemperature util_failing_lib stub_device) = 45
   \<and> GetMetrics util_failing_lib stub_device = (Metrics_zero, Some ''Unknown Error'')"
proof -
  have bad: "\<not> reads_ok util_failing_lib stub_device"
    by (simp add: reads_ok_def util_failing_lib_def stub_lib_def SUCCESS_def)
  have temp: "fst (GetTemperature util_failing_lib stub_device) = 45"
    by (simp add: GetTemperature_def util_failing_lib_def stub_lib_def SUCCESS_def)
  have err: "snd (GetMetrics util_failing_lib stub_device) = Some ''Unknown Error''"
    by (simp add: GetMetrics_def GetTemperature_def GetPower_def GetUtilization_def
        deviceHandleErrorString_def util_failing_lib_def stub_lib_def stub_device_def
        stub_ErrorString_def SUCCESS_def Let_def)
  show ?thesis
    using bad temp err GetMetrics_failure_is_empty [OF bad]
    by (simp add: prod_eq_iff)
qed

section \<open>The cloud sink\<close>

text \<open>
  C5. For every record, \<open>PublishCloudwatchMetrics\<close> makes one submission. It holds four
  data, named for GPU usage, memory used, temperature and power in that order, each
  with the value of that field of the record, each with the same two instance-identity
  dimensions and the storage resolution passed in. (Total memory is not submitted.)
\<close>

theorem PublishCloudwatchMetrics_one_batch_of_four:
  "(let (calls, err) =
          PublishCloudwatchMetrics m client instanceID instanceType resolution namespace;
        dims = [\<lparr>Name = ''InstancesId'', DimensionValue = instanceID\<rparr>,
                \<lparr>Name = ''InstanceType'', DimensionValue = instanceType\<rparr>]
    in length calls = 1
       \<and> Namespace (hd calls) = namespace
       \<and> map MetricName (MetricData (hd calls)) =
             [''GPU Usage'', ''Memory Used'', ''Temperature (C)'', ''Power (W)'']
       \<and> map Value (MetricData (hd calls)) =
             [f64_of_uint (GpuUsage m), f64_of_f32 (MemoryUsed m),
              f64_of_uint (Temperature m), f64_of_f32 (Power m)]
       \<and> map Dimensions (MetricData (hd calls)) = replicate 4 dims
       \<and> map StorageResolution (MetricData (hd calls)) = replicate 4 resolution)"
  by (simp add: PublishCloudwatchMetrics_def Let_def numeral_eq_Suc split: option.splits)

text \<open>
  C6. \<open>PublishCloudwatchMetrics\<close> submits once whatever the answer. If the submission
  fails, the error returned is the fixed prefix followed by the transport error's
  message; if it goes through, the error is \<open>nil\<close>.
\<close>

theorem PublishCloudwatchMetrics_error_and_no_retry:
  "(let (calls, err) =
          PublishCloudwatchMetrics m client instanceID instanceType resolution namespace
    in length calls = 1
       \<and> err = (case client (hd calls) of
                  None \<Rightarrow> None
                | Some e \<Rightarrow> Some (''Unable to publish metrics to CloudWatch: '' @ e)))"
  by (simp add: PublishCloudwatchMetrics_def Let_def split: option.splits)

lemma PublishCloudwatchMetrics_failing_client:
  "snd (PublishCloudwatchMetrics stub_metrics failing_client ''i-0abc'' ''p3.2xlarge'' 60 ''GPU'') =
     Some (''Unable to publish metrics to CloudWatch: '' @
           ''operation error CloudWatch: PutMetricData, request send failed'')"
  by (simp add: PublishCloudwatchMetrics_def failing_client_def Let_def)

lemma PublishCloudwatchMetrics_accepting_client:
  "snd (PublishCloudwatchMetrics stub_metrics accepting_client ''i-0abc'' ''p3.2xlarge'' 60 ''GPU'') = None"
  by (simp add: PublishCloudwatchMetrics_def accepting_client_def Let_def)

section \<open>The JSON form of a record\<close>

text \<open>
  With the tags of \<open>main.go\<close>, a record that serializes gives the five members
  \<open>temperature\<close>, \<open>power\<close>, \<open>gpu_usage\<close>, \<open>memory_total\<close>, \<open>memory_used\<close>, in that order,
  each with the value of its field.
\<close>

lemma json_Marshal_main_fields:
  assumes "snd (json_Marshal Metrics_tags m) = None"
  shows "fst (json_Marshal Metrics_tags m) =
           [(''temperature'', JUint (Temperature m)), (''power'', JFloat32 (Power m)),
            (''gpu_usage'', JUint (GpuUsage m)), (''memory_total'', JFloat32 (MemoryTotal m)),
            (''memory_used'', JFloat32 (MemoryUsed m))]"
  using assms by (simp add: json_Marshal_def Metrics_tags_def split: if_splits)

text \<open>
  C2. The claim names the fifth member \<open>memory_used\<close>. The second program of the
  repository tags the field \<open>MemoryUsed\<close> with \<open>memory_available\<close>: its loop emits an
  object whose fifth member has that name, and none named \<open>memory_used\<close>.
\<close>

theorem json_Marshal_part_000_memory_available:
  "json_Marshal Metrics_tags_part_000 stub_metrics =
     ([(''temperature'', JUint 45), (''power'', JFloat32 (Finite 128)),
       (''gpu_usage'', JUint 50), (''memory_total'', JFloat32 (Finite 16)),
       (''memory_available'', JFloat32 (Finite 4))], None)"
  by (simp add: json_Marshal_def Metrics_tags_part_000_def stub_metrics_def)

section \<open>The sampling loop\<close>

lemma GetMetrics_ok:
  assumes "reads_ok lib d"
  shows "snd (GetMetrics lib d) = None"
  using assms
  by (auto simp add: reads_ok_def GetMetrics_def GetTemperature_def GetPower_def
      GetUtilization_def deviceHandleErrorString_def Let_def split: prod.splits)

text \<open>A pass in which the reads and the serialization succeed: one line, then the pause.\<close>

lemma main_iteration_normal:
  assumes "reads_ok lib device"
    and "snd (json_Marshal tags (fst (GetMetrics lib device))) = None"
  shows "main_iteration tags lib device =
           Returned [Println (fst (json_Marshal tags (fst (GetMetrics lib device)))),
                     Sleep 5000000000]"
proof -
  obtain metrics where m: "GetMetrics lib device = (metrics, None)"
    using GetMetrics_ok [OF assms(1)] by (cases "GetMetrics lib device") simp
  obtain js where j: "json_Marshal tags metrics = (js, None)"
    using assms(2) m by (cases "json_Marshal tags metrics") simp
  show ?thesis
    by (simp add: main_iteration_def m j Second_def)
qed

text \<open>The loop has no way out while every pass returns: by induction on its unfolding.\<close>

lemma main_loop_never_exits:
  assumes ok: "\<And>j. \<exists>evs. main_iteration tags (libs j) device = Returned evs"
  shows "main_loop tags libs device k = None"
proof (rule ccontr)
  assume "main_loop tags libs device k \<noteq> None"
  then obtain msg where exit: "main_loop tags libs device k = Some msg"
    by auto
  have "(\<forall>j. \<exists>evs. main_iteration tags (libs j) device = Returned evs) \<longrightarrow> False"
  proof (rule main_loop.raw_induct
      [where P = "\<lambda>t l d i y. (\<forall>j. \<exists>evs. main_iteration t (l j) d = Returned evs) \<longrightarrow> False",
        OF _ exit])
    fix loop :: "string list \<Rightarrow> (nat \<Rightarrow> nvml) \<Rightarrow> Device \<Rightarrow> nat \<Rightarrow> string option"
    fix t l d i y
    assume IH: "\<And>t l d i y. loop t l d i = Some y \<Longrightarrow>
                  (\<forall>j. \<exists>evs. main_iteration t (l j) d = Returned evs) \<longrightarrow> False"
    assume body: "(case main_iteration t (l i) d of Fatalf msg \<Rightarrow> Some msg
                   | Returned evs \<Rightarrow> loop t l d (Suc i)) = Some y"
    show "(\<forall>j. \<exists>evs. main_iteration t (l j) d = Returned evs) \<longrightarrow> False"
    proof
      assume all: "\<forall>j. \<exists>evs. main_iteration t (l j) d = Returned evs"
      then obtain evs where "main_iteration t (l i) d = Returned evs"
        by blast
      with body have "loop t l d (Suc i) = Some y"
        by simp
      from IH [OF this] all show False
        by blast
    qed
  qed
  with ok show False
    by blast
qed

lemma main_trace_normal:
  assumes ok: "\<And>j. main_iteration tags (libs j) device = Returned (evs j)"
  shows "main_trace tags libs device k n = (concat (map evs [k..<k + n]), None)"
proof (induction n arbitrary: k)
  case 0
  show ?case by simp
next
  case (Suc n)
  have "[k..<k + Suc n] = k # [Suc k..<Suc k + n]"
    by (simp add: upt_rec)
  then show ?case
    by (simp add: ok Suc.IH)
qed

text \<open>
  C7. Under normal operation (in every pass the four reads succeed and the record
  serializes) the loop never exits, and its first \<open>n\<close> passes, for every \<open>n\<close>, are
  \<open>n\<close> times: one line printed with the record of that pass, then one pause of
  5 seconds. The pause is the event \<open>Sleep\<close> with its duration; what the clock does
  during it is outside the model.
\<close>

theorem main_loop_one_record_per_period:
  assumes reads: "\<And>k. reads_ok (libs k) device"
    and marshals: "\<And>k. snd (json_Marshal tags (fst (GetMetrics (libs k) device))) = None"
  shows "main_loop tags libs device 0 = None
         \<and> (\<forall>n. main_trace tags libs device 0 n =
               (concat (map (\<lambda>k. [Println (fst (json_Marshal tags (fst (GetMetrics (libs k) device)))),
                                    Sleep 5000000000]) [0..<n]), None))"
proof
  show "main_loop tags libs device 0 = None"
    by (rule main_loop_never_exits) (simp add: main_iteration_normal [OF reads marshals])
  show "\<forall>n. main_trace tags libs device 0 n =
               (concat (map (\<lambda>k. [Println (fst (json_Marshal tags (fst (GetMetrics (libs k) device)))),
                                    Sleep 5000000000]) [0..<n]), None)"
    using main_trace_normal [of tags libs device _ 0, OF main_iteration_normal [OF reads marshals]]
    by simp
qed

lemma GetMetrics_stub:
  "GetMetrics stub_lib stub_device = (stub_metrics, None)"
  by (simp add: GetMetrics_def GetTemperature_def GetPower_def GetUtilization_def
      stub_lib_def stub_device_def stub_metrics_def SUCCESS_def float_eval)

lemma reads_ok_stub: "reads_ok stub_lib stub_device"
  by (simp add: reads_ok_def stub_lib_def SUCCESS_def)

theorem main_loop_one_record_per_period_witness:
  "main_loop Metrics_tags (\<lambda>k. stub_lib) stub_device 0 = None
   \<and> main_trace Metrics_tags (\<lambda>k. stub_lib) stub_device 0 2 =
       ([Println [(''temperature'', JUint 45), (''power'', JFloat32 (Finite 128)),
                  (''gpu_usage'', JUint 50), (''memory_total'', JFloat32 (Finite 16)),
                  (''memory_used'', JFloat32 (Finite 4))],
         Sleep 5000000000,
         Println [(''temperature'', JUint 45), (''power'', JFloat32 (Finite 128)),
                  (''gpu_usage'', JUint 50), (''memory_total'', JFloat32 (Finite 16)),
                  (''memory_used'', JFloat32 (Finite 4))],
         Sleep 5000000000], None)"
proof -
  have js: "json_Marshal Metrics_tags stub_metrics =
      ([(''temperature'', JUint 45), (''power'', JFloat32 (Finite 128)),
        (''gpu_usage'', JUint 50), (''memory_total'', JFloat32 (Finite 16)),
        (''memory_used'', JFloat32 (Finite 4))], None)"
    by (simp add: json_Marshal_def Metrics_tags_def stub_metrics_def)
  have m: "snd (json_Marshal Metrics_tags (fst (GetMetrics stub_lib stub_device))) = None"
    by (simp add: GetMetrics_stub js)
  have two: "[0..<2] = [0, Suc 0]"
    by (simp add: upt_rec)
  show ?thesis
    using main_loop_one_record_per_period
      [of "\<lambda>k. stub_lib" stub_device Metrics_tags, OF reads_ok_stub m]
    by (simp add: GetMetrics_stub js two)
qed

section \<open>The delimited-string form of a record\<close>

lemma floor_rat_numeral: "\<lfloor>(numeral a :: rat) / numeral b\<rfloor> = numeral a div numeral b"
  using floor_divide_of_int_eq [of "numeral a" "numeral b", where ?'a = rat] by simp

lemma ceiling_rat_numeral:
  "\<lceil>(numeral a :: rat) / numeral b\<rceil> = - ((- numeral a) div numeral b)"
  using floor_divide_of_int_eq [of "- numeral a" "numeral b", where ?'a = rat]
  by (simp add: ceiling_def)

lemma floor_rat_one: "\<lfloor>(1 :: rat) / numeral b\<rfloor> = 1 div numeral b"
  using floor_divide_of_int_eq [of 1 "numeral b", where ?'a = rat] by simp

lemma digit_char: "d < 10 \<Longrightarrow> is_digit (''0123456789'' ! d)"
proof -
  assume "d < 10"
  then have "d \<in> {0,1,2,3,4,5,6,7,8,9}" by auto
  then show ?thesis by (auto simp: is_digit_def)
qed

lemma show_nat_digits: "list_all is_digit (show_nat n)"
proof (induction n rule: show_nat.induct)
  case (1 n)
  show ?case
  proof (cases "n < 10")
    case True
    then show ?thesis by (subst show_nat.simps) (simp add: digit_char)
  next
    case False
    then show ?thesis using 1 by (subst show_nat.simps) (simp add: digit_char)
  qed
qed

lemma show_nat_nonempty: "show_nat n \<noteq> []"
  by (subst show_nat.simps) simp

lemma show_nat_length: "0 < p \<Longrightarrow> n < 10 ^ p \<Longrightarrow> length (show_nat n) \<le> p"
proof (induction n arbitrary: p rule: show_nat.induct)
  case (1 n)
  show ?case
  proof (cases "n < 10")
    case True
    then show ?thesis using 1(2) by (subst show_nat.simps) simp
  next
    case False
    then have p: "1 < p" using 1(2,3) by (cases "p = 1") auto
    have "n div 10 < 10 ^ (p - 1)"
    proof -
      have "n < 10 * 10 ^ (p - 1)" using 1(3) p by (cases p) auto
      then show ?thesis by (simp add: less_mult_imp_div_less mult.commute)
    qed
    then have "length (show_nat (n div 10)) \<le> p - 1"
      using 1(1) [OF False, of "p - 1"] p by simp
    then show ?thesis using False p by (subst show_nat.simps) simp
  qed
qed

lemma is_fixed_decimal_shape:
  assumes "whole \<noteq> []" "list_all is_digit whole" "list_all is_digit decimals" "length decimals = prec"
  shows "is_fixed_decimal prec (whole @ ''.'' @ decimals)"
    and "is_fixed_decimal prec (''-'' @ whole @ ''.'' @ decimals)"
proof -
  have nd: "\<not> is_digit (CHR ''.'')" "\<not> is_digit (CHR ''-'')"
    by (simp_all add: is_digit_def)
  have tw: "takeWhile is_digit (whole @ CHR ''.'' # decimals) = whole"
    using assms(2) nd by (simp add: takeWhile_append2 list_all_iff)
  obtain w ws where w: "whole = w # ws" using assms(1) by (cases whole) auto
  have wd: "w \<noteq> CHR ''-''" using assms(2) nd w by auto
  show "is_fixed_decimal prec (whole @ ''.'' @ decimals)"
    using assms tw wd by (simp add: is_fixed_decimal_def w Let_def)
  show "is_fixed_decimal prec (''-'' @ whole @ ''.'' @ decimals)"
    using assms tw by (simp add: is_fixed_decimal_def Let_def)
qed

lemma digit_value_char: "d < 10 \<Longrightarrow> digit_value (''0123456789'' ! d) = d"
proof -
  assume "d < 10"
  then have "d \<in> {0,1,2,3,4,5,6,7,8,9}" by auto
  then show ?thesis by (auto simp: digit_value_def is_digit_def)
qed

lemma read_nat_snoc: "read_nat (xs @ [c]) = 10 * read_nat xs + digit_value c"
  by (simp add: read_nat_def)

lemma read_nat_show_nat: "read_nat (show_nat n) = n"
proof (induction n rule: show_nat.induct)
  case (1 n)
  show ?case
  proof (cases "n < 10")
    case True
    then show ?thesis
      by (subst show_nat.simps) (simp add: read_nat_def digit_value_char)
  next
    case False
    then show ?thesis
      using 1 by (subst show_nat.simps) (simp add: read_nat_snoc digit_value_char)
  qed
qed

lemma read_nat_zeros: "read_nat (replicate k (CHR ''0'') @ s) = read_nat s"
proof -
  have z: "digit_value (CHR ''0'') = 0"
    by (simp add: digit_value_def)
  have "foldl (\<lambda>a c. 10 * a + digit_value c) 0 (replicate k (CHR ''0'')) = 0"
    by (induction k) (simp_all add: z)
  then show ?thesis by (simp add: read_nat_def)
qed

lemma read_decimal_shape:
  assumes "whole \<noteq> []" "list_all is_digit whole"
  shows "read_decimal (whole @ ''.'' @ decimals) =
           of_nat (read_nat whole) + of_nat (read_nat decimals) / 10 ^ length decimals"
    and "read_decimal (''-'' @ whole @ ''.'' @ decimals) =
           - (of_nat (read_nat whole) + of_nat (read_nat decimals) / 10 ^ length decimals)"
proof -
  have nd: "\<not> is_digit (CHR ''.'')" "\<not> is_digit (CHR ''-'')"
    by (simp_all add: is_digit_def)
  have tw: "takeWhile is_digit (whole @ CHR ''.'' # decimals) = whole"
    using assms(2) nd by (simp add: takeWhile_append2 list_all_iff)
  obtain w ws where w: "whole = w # ws" using assms(1) by (cases whole) auto
  have wd: "w \<noteq> CHR ''-''" using assms(2) nd w by auto
  show "read_decimal (whole @ ''.'' @ decimals) =
           of_nat (read_nat whole) + of_nat (read_nat decimals) / 10 ^ length decimals"
    using tw wd by (simp add: read_decimal_def w Let_def)
  show "read_decimal (''-'' @ whole @ ''.'' @ decimals) =
           - (of_nat (read_nat whole) + of_nat (read_nat decimals) / 10 ^ length decimals)"
    using tw by (simp add: read_decimal_def Let_def)
qed

lemma round_half_even_nonneg: "0 \<le> q \<Longrightarrow> 0 \<le> round_half_even q"
  by (auto simp add: round_half_even_def Let_def)

lemma fixed_decimal_parts:
  assumes "0 < prec" "0 \<le> q"
  shows "\<exists>whole decimals. fixed_decimal prec q = whole @ ''.'' @ decimals \<and> whole \<noteq> []
     \<and> list_all is_digit whole \<and> list_all is_digit decimals \<and> length decimals = prec
     \<and> of_nat (read_nat whole) + of_nat (read_nat decimals) / 10 ^ prec
         = (of_int (round_half_even (q * 10 ^ prec)) :: rat) / 10 ^ prec"
proof -
  define n where "n = nat (round_half_even (q * 10 ^ prec))"
  define d where "d = show_nat (n mod 10 ^ prec)"
  define ds where "ds = replicate (prec - length d) (CHR ''0'') @ d"
  have len: "length d \<le> prec"
    unfolding d_def using assms by (intro show_nat_length) simp_all
  have z: "is_digit (CHR ''0'')" by (simp add: is_digit_def)
  have eq: "fixed_decimal prec q = show_nat (n div 10 ^ prec) @ ''.'' @ ds"
    using assms by (simp add: fixed_decimal_def Let_def n_def d_def ds_def)
  have dig: "list_all is_digit ds"
    using z show_nat_digits [of "n mod 10 ^ prec"] by (auto simp add: ds_def d_def list_all_iff)
  have l: "length ds = prec"
    using len by (simp add: ds_def)
  have n: "of_nat n = (of_int (round_half_even (q * 10 ^ prec)) :: rat)"
    using round_half_even_nonneg [of "q * 10 ^ prec"] assms(2) by (simp add: n_def)
  have split: "(of_nat n :: rat) = of_nat (n div 10 ^ prec) * 10 ^ prec + of_nat (n mod 10 ^ prec)"
  proof -
    have "(of_nat n :: rat) = of_nat (n div 10 ^ prec * 10 ^ prec + n mod 10 ^ prec)"
      by (simp only: div_mult_mod_eq)
    also have "\<dots> = of_nat (n div 10 ^ prec) * 10 ^ prec + of_nat (n mod 10 ^ prec)"
      by (simp only: of_nat_add of_nat_mult of_nat_power of_nat_numeral)
    finally show ?thesis .
  qed
  have "(of_nat (read_nat (show_nat (n div 10 ^ prec))) :: rat) + of_nat (read_nat ds) / 10 ^ prec
        = of_nat (n div 10 ^ prec) + of_nat (n mod 10 ^ prec) / 10 ^ prec"
    by (simp add: read_nat_show_nat ds_def read_nat_zeros d_def)
  also have "\<dots> = (of_nat (n div 10 ^ prec) * 10 ^ prec + of_nat (n mod 10 ^ prec)) / 10 ^ prec"
    by (simp add: add_divide_distrib)
  also have "\<dots> = of_nat n / 10 ^ prec"
    by (simp only: split)
  finally have v: "(of_nat (read_nat (show_nat (n div 10 ^ prec))) :: rat) + of_nat (read_nat ds) / 10 ^ prec
        = of_int (round_half_even (q * 10 ^ prec)) / 10 ^ prec"
    using n by simp
  show ?thesis
    using eq dig l v show_nat_nonempty show_nat_digits by blast
qed

lemma fmt_f_finite:
  assumes "0 < prec" "is_finite x"
  shows "is_fixed_decimal prec (fmt_f prec x) \<and> read_decimal (fmt_f prec x) = rounded_decimal prec x"
proof (cases x)
  case (Finite q)
  obtain whole decimals where p: "fixed_decimal prec \<bar>q\<bar> = whole @ ''.'' @ decimals" "whole \<noteq> []"
    "list_all is_digit whole" "list_all is_digit decimals" "length decimals = prec"
    "of_nat (read_nat whole) + of_nat (read_nat decimals) / 10 ^ prec
         = (of_int (round_half_even (\<bar>q\<bar> * 10 ^ prec)) :: rat) / 10 ^ prec"
    using fixed_decimal_parts [OF assms(1), of "\<bar>q\<bar>"] by auto
  show ?thesis
    using p is_fixed_decimal_shape [of whole decimals prec] read_decimal_shape [of whole decimals]
      Finite
    by (cases "q < 0") simp_all
next
  case NegZero
  obtain whole decimals where p: "fixed_decimal prec 0 = whole @ ''.'' @ decimals" "whole \<noteq> []"
    "list_all is_digit whole" "list_all is_digit decimals" "length decimals = prec"
    "of_nat (read_nat whole) + of_nat (read_nat decimals) / 10 ^ prec
         = (of_int (round_half_even (0 * 10 ^ prec)) :: rat) / 10 ^ prec"
    using fixed_decimal_parts [OF assms(1), of 0] by auto
  have "round_half_even 0 = 0"
    by (simp add: round_half_even_def)
  then show ?thesis
    using p is_fixed_decimal_shape [of whole decimals prec] read_decimal_shape [of whole decimals]
      NegZero
    by simp
qed (use assms in simp_all)

lemma split_on_no_separator: "c \<notin> set xs \<Longrightarrow> split_on c xs = [xs]"
  by (induction xs) auto

lemma split_on_append: "c \<notin> set xs \<Longrightarrow> split_on c (xs @ c # ys) = xs # split_on c ys"
  by (induction xs) auto

lemma comma_not_digit:
  assumes "list_all is_digit s"
  shows "CHR '','' \<notin> set s"
proof -
  have "\<not> is_digit (CHR '','')"
    by (simp add: is_digit_def)
  with assms show ?thesis
    by (auto simp: list_all_iff)
qed

lemma comma_not_in_fmt_d: "CHR '','' \<notin> set (fmt_d w)"
  by (simp add: fmt_d_def comma_not_digit show_nat_digits)

lemma comma_not_in_fixed_decimal: "CHR '','' \<notin> set (fixed_decimal prec q)"
  using comma_not_digit [OF show_nat_digits]
  by (auto simp add: fixed_decimal_def Let_def)

lemma comma_not_in_fmt_f: "CHR '','' \<notin> set (fmt_f prec x)"
  by (cases x) (simp_all add: comma_not_in_fixed_decimal)

lemma String_eq: "String m = fmt_d (Temperature m) @ CHR '','' # fmt_f 2 (Power m) @ CHR '','' # fmt_d (GpuUsage m) @ CHR '','' # fmt_f 1 (MemoryTotal m) @ CHR '','' # fmt_f 2 (MemoryUsed m)"
  by (simp add: String_def)

lemma String_pieces:
  "split_on (CHR '','') (String m) =
     [fmt_d (Temperature m), fmt_f 2 (Power m), fmt_d (GpuUsage m),
      fmt_f 1 (MemoryTotal m), fmt_f 2 (MemoryUsed m)]"
proof -
  let ?c = "CHR '',''"
  let ?r4 = "fmt_f 2 (MemoryUsed m)"
  let ?r3 = "fmt_f 1 (MemoryTotal m) @ ?c # ?r4"
  let ?r2 = "fmt_d (GpuUsage m) @ ?c # ?r3"
  let ?r1 = "fmt_f 2 (Power m) @ ?c # ?r2"
  have s4: "split_on ?c ?r4 = [fmt_f 2 (MemoryUsed m)]"
    by (rule split_on_no_separator [OF comma_not_in_fmt_f])
  have s3: "split_on ?c ?r3 = fmt_f 1 (MemoryTotal m) # split_on ?c ?r4"
    by (rule split_on_append [OF comma_not_in_fmt_f])
  have s2: "split_on ?c ?r2 = fmt_d (GpuUsage m) # split_on ?c ?r3"
    by (rule split_on_append [OF comma_not_in_fmt_d])
  have s1: "split_on ?c ?r1 = fmt_f 2 (Power m) # split_on ?c ?r2"
    by (rule split_on_append [OF comma_not_in_fmt_f])
  have s0: "split_on ?c (fmt_d (Temperature m) @ ?c # ?r1) = fmt_d (Temperature m) # split_on ?c ?r1"
    by (rule split_on_append [OF comma_not_in_fmt_d])
  show ?thesis
    unfolding String_eq s0 s1 s2 s3 s4 by (rule refl)
qed

text \<open>
  C10, as the claim has it, fails where a floating-point field is not a number: a NaN
  is written \<open>NaN\<close>, with no decimals at all.
\<close>

theorem String_NaN_counterexample:
  "String nan_metrics = ''0,NaN,0,0.0,0.00''
   \<and> \<not> is_fixed_decimal 2 (fmt_f 2 (Power nan_metrics))"
proof -
  have s: "String nan_metrics = ''0,NaN,0,0.0,0.00''"
    by (simp add: String_def nan_metrics_def fmt_d_def fixed_decimal_def round_half_even_def
        show_nat.simps Let_def)
  have n: "\<not> is_fixed_decimal 2 (fmt_f 2 (Power nan_metrics))"
    by (simp add: nan_metrics_def is_fixed_decimal_def is_digit_def)
  show ?thesis using s n by simp
qed

text \<open>
  C10, amended. For every record, the pieces of \<open>String\<close> between the commas are
  exactly five: temperature, power, GPU usage, total memory, used memory, in that order.
  The two integers are written in decimal. Each floating-point field that is finite is
  written as a decimal with exactly two digits after the point (power, used memory) or
  one (total memory), and it reads back as the field's value rounded to that many
  decimals. (A NaN or an infinity is written \<open>NaN\<close>, \<open>+Inf\<close> or \<open>-Inf\<close>.)
\<close>

theorem String_five_values_in_order:
  "split_on (CHR '','') (String m) =
     [fmt_d (Temperature m), fmt_f 2 (Power m), fmt_d (GpuUsage m),
      fmt_f 1 (MemoryTotal m), fmt_f 2 (MemoryUsed m)]
   \<and> read_nat (fmt_d (Temperature m)) = unat (Temperature m)
   \<and> read_nat (fmt_d (GpuUsage m)) = unat (GpuUsage m)
   \<and> (is_finite (Power m) \<longrightarrow>
        is_fixed_decimal 2 (fmt_f 2 (Power m))
        \<and> read_decimal (fmt_f 2 (Power m)) = rounded_decimal 2 (Power m))
   \<and> (is_finite (MemoryTotal m) \<longrightarrow>
        is_fixed_decimal 1 (fmt_f 1 (MemoryTotal m))
        \<and> read_decimal (fmt_f 1 (MemoryTotal m)) = rounded_decimal 1 (MemoryTotal m))
   \<and> (is_finite (MemoryUsed m) \<longrightarrow>
        is_fixed_decimal 2 (fmt_f 2 (MemoryUsed m))
        \<and> read_decimal (fmt_f 2 (MemoryUsed m)) = rounded_decimal 2 (MemoryUsed m))"
proof -
  have ints: "read_nat (fmt_d (Temperature m)) = unat (Temperature m)"
    "read_nat (fmt_d (GpuUsage m)) = unat (GpuUsage m)"
    by (simp_all only: fmt_d_def read_nat_show_nat)
  have p2: "0 < (2::nat)" and p1: "0 < (1::nat)"
    by simp_all
  show ?thesis
    using String_pieces [of m] ints fmt_f_finite [OF p2, of "Power m"]
      fmt_f_finite [OF p1, of "MemoryTotal m"] fmt_f_finite [OF p2, of "MemoryUsed m"]
    by blast
qed

theorem String_five_values_in_order_witness:
  "String sample_metrics = ''45,128.12,50,16.0,3.98''
   \<and> split_on (CHR '','') (String sample_metrics) = [''45'', ''128.12'', ''50'', ''16.0'', ''3.98'']
   \<and> is_fixed_decimal 2 ''128.12'' \<and> read_decimal ''128.12'' = 3203 / 25
   \<and> is_fixed_decimal 1 ''16.0'' \<and> read_decimal ''16.0'' = 16
   \<and> is_fixed_decimal 2 ''3.98'' \<and> read_decimal ''3.98'' = 199 / 50"
proof -
  have s: "String sample_metrics = ''45,128.12,50,16.0,3.98''"
    by (simp add: String_def sample_metrics_def fmt_d_def fixed_decimal_def round_half_even_def
        show_nat.simps Let_def floor_rat_numeral)
  have pieces: "fmt_d (Temperature sample_metrics) = ''45''"
    "fmt_f 2 (Power sample_metrics) = ''128.12''"
    "fmt_d (GpuUsage sample_metrics) = ''50''"
    "fmt_f 1 (MemoryTotal sample_metrics) = ''16.0''"
    "fmt_f 2 (MemoryUsed sample_metrics) = ''3.98''"
    by (simp_all add: sample_metrics_def fmt_d_def fixed_decimal_def round_half_even_def
        show_nat.simps Let_def floor_rat_numeral)
  have fin: "is_finite (Power sample_metrics)" "is_finite (MemoryTotal sample_metrics)"
    "is_finite (MemoryUsed sample_metrics)"
    by (simp_all add: sample_metrics_def)
  have r: "rounded_decimal 2 (Power sample_metrics) = 3203 / 25"
    "rounded_decimal 1 (MemoryTotal sample_metrics) = 16"
    "rounded_decimal 2 (MemoryUsed sample_metrics) = 199 / 50"
    by (simp_all add: sample_metrics_def round_half_even_def Let_def floor_rat_numeral)
  note inst = String_five_values_in_order [of sample_metrics, unfolded pieces r]
  show ?thesis
    using inst fin s by (simp only: pieces)
qed

section \<open>Rounding\<close>

text \<open>
  The facts about the floating-point model that the conversions need: the binary
  exponent brackets its argument, rounding to the nearest integer is off by at most a
  half, and so rounding a number in the normal range is off by at most the relative
  error \<open>2^-p\<close> and does not overflow.
\<close>

lemma pow2_powi: "pow2 e = 2 powi e"
proof (cases "0 \<le> e")
  case True
  then show ?thesis
    by (simp add: pow2_def power_int_def)
next
  case False
  from False show ?thesis
    by (simp add: pow2_def power_int_def power_one_over)
qed

lemma pow2_pos: "0 < pow2 e"
  by (simp add: pow2_powi)

lemma pow2_add: "pow2 (a + b) = pow2 a * pow2 b"
  by (simp add: pow2_powi power_int_add)

lemma pow2_mono: "a \<le> b \<Longrightarrow> pow2 a \<le> pow2 b"
  by (simp add: pow2_powi power_int_increasing)

lemma pow2_strict_mono: "a < b \<Longrightarrow> pow2 a < pow2 b"
  by (simp add: pow2_powi power_int_strict_increasing)

lemma pow2_less_cancel: "pow2 a < pow2 b \<Longrightarrow> a < b"
  using pow2_mono [of b a] by (cases "a < b") auto

lemma pow2_nat: "pow2 (int k) = 2 ^ k"
  by (simp add: pow2_def)

lemma pow2_neg_nat: "pow2 (- int k) = 1 / 2 ^ k"
  by (simp add: pow2_powi power_int_minus inverse_eq_divide)

lemma bit_length_0: "bit_length 0 = 0"
  by (subst bit_length.simps) simp

lemma bit_length_pos: "0 < n \<Longrightarrow> bit_length n = Suc (bit_length (n div 2))"
  by (subst bit_length.simps) simp

lemma bit_length_bounds:
  assumes "0 < n"
  shows "(2::nat) ^ (bit_length n - 1) \<le> n \<and> n < 2 ^ bit_length n"
  using assms
proof (induction n rule: less_induct)
  case (less n)
  show ?case
  proof (cases "n div 2 = 0")
    case True
    with less.prems have n1: "n = Suc 0"
      by (simp add: div_eq_0_iff)
    have "bit_length (Suc 0) = Suc 0"
      by (simp add: bit_length_pos bit_length_0)
    then show ?thesis
      by (simp add: n1)
  next
    case False
    then have pos: "0 < n div 2"
      by simp
    have smaller: "n div 2 < n"
      using less.prems by simp
    have IH: "(2::nat) ^ (bit_length (n div 2) - 1) \<le> n div 2
              \<and> n div 2 < 2 ^ bit_length (n div 2)"
      by (rule less.IH [OF smaller pos])
    have bl: "bit_length n = Suc (bit_length (n div 2))"
      by (rule bit_length_pos [OF less.prems])
    obtain j where j: "bit_length (n div 2) = Suc j"
      using bit_length_pos [OF pos] by simp
    have "(2::nat) ^ (bit_length n - 1) = 2 * 2 ^ j"
      by (simp add: bl j)
    also have "\<dots> \<le> 2 * (n div 2)"
      using IH by (simp add: j)
    also have "\<dots> \<le> n"
      by simp
    finally have lo: "(2::nat) ^ (bit_length n - 1) \<le> n" .
    have "n < 2 * (n div 2) + 2"
      by presburger
    also have "\<dots> \<le> 2 * (2::nat) ^ bit_length (n div 2)"
      using IH by simp
    finally have hi: "n < 2 ^ bit_length n"
      by (simp add: bl)
    show ?thesis
      using lo hi by simp
  qed
qed

lemma ilog2_bounds:
  assumes "0 < q"
  shows "pow2 (ilog2 q) \<le> q \<and> q < pow2 (ilog2 q + 1)"
proof (cases "1 \<le> q")
  case True
  define n where "n = nat \<lfloor>q\<rfloor>"
  have fl: "1 \<le> \<lfloor>q\<rfloor>"
    using True by (simp add: le_floor_iff)
  then have npos: "0 < n"
    unfolding n_def by linarith
  have n_int: "int n = \<lfloor>q\<rfloor>"
    using fl unfolding n_def by linarith
  obtain j where j: "bit_length n = Suc j"
    using bit_length_pos [OF npos] by simp
  have b: "(2::nat) ^ j \<le> n" "n < 2 ^ Suc j"
    using bit_length_bounds [OF npos] by (simp_all add: j)
  have il: "ilog2 q = int j"
    using True by (simp add: ilog2_def n_def [symmetric] j)
  have "(of_nat n :: rat) = of_int \<lfloor>q\<rfloor>"
    using n_int by (metis of_int_of_nat_eq)
  then have nq: "(of_nat n :: rat) \<le> q" "q < of_nat n + 1"
    using floor_correct [of q] by simp_all
  have "(2::rat) ^ j = of_nat (2 ^ j)"
    by simp
  also have "\<dots> \<le> of_nat n"
    using b(1) by (simp only: of_nat_le_iff)
  finally have "(2::rat) ^ j \<le> of_nat n" .
  from this nq(1) have "(2::rat) ^ j \<le> q"
    by (rule order_trans)
  then have lo: "pow2 (int j) \<le> q"
    by (simp only: pow2_nat)
  have "n + 1 \<le> 2 ^ Suc j"
    using b(2) by simp
  then have "(of_nat (n + 1) :: rat) \<le> of_nat (2 ^ Suc j)"
    by (simp only: of_nat_le_iff)
  then have "(of_nat n :: rat) + 1 \<le> 2 ^ Suc j"
    by simp
  then have hi: "q < pow2 (int j + 1)"
    using nq(2) pow2_nat [of "Suc j"] by (simp add: add.commute)
  show ?thesis
    using lo hi by (simp add: il)
next
  case False
  define t where "t = 1 / q"
  define m where "m = nat \<lceil>t\<rceil>"
  have t1: "1 < t"
    using False assms by (simp add: t_def)
  have ce: "2 \<le> \<lceil>t\<rceil>"
    using t1 by (simp add: le_ceiling_iff)
  then have m2: "2 \<le> m"
    unfolding m_def by linarith
  have m_int: "int m = \<lceil>t\<rceil>"
    using ce unfolding m_def by linarith
  define k where "k = m - 1"
  have kpos: "0 < k"
    using m2 by (simp add: k_def)
  have mk: "m = Suc k"
    using m2 by (simp add: k_def)
  obtain j where j: "bit_length k = Suc j"
    using bit_length_pos [OF kpos] by simp
  have b: "(2::nat) ^ j \<le> k" "k < 2 ^ Suc j"
    using bit_length_bounds [OF kpos] by (simp_all add: j)
  have "ilog2 q = - int (bit_length (nat \<lceil>1 / q\<rceil> - 1))"
    using False by (simp only: ilog2_def if_False)
  also have "nat \<lceil>1 / q\<rceil> - 1 = k"
    by (simp only: k_def m_def t_def)
  finally have il: "ilog2 q = - int (Suc j)"
    by (simp only: j)
  have mt: "(of_nat m :: rat) = of_int \<lceil>t\<rceil>"
    using m_int by (metis of_int_of_nat_eq)
  have up: "t \<le> of_nat m"
    by (simp add: mt)
  have down: "(of_nat m :: rat) - 1 < t"
    using ceiling_correct [of t] by (simp add: mt)
  have "m \<le> 2 ^ Suc j"
    using b(2) by (simp add: mk)
  then have "(of_nat m :: rat) \<le> of_nat (2 ^ Suc j)"
    by (simp only: of_nat_le_iff)
  then have tle: "t \<le> 2 ^ Suc j"
    using up by simp
  have "(of_nat (2 ^ j) :: rat) \<le> of_nat k"
    using b(1) by (simp only: of_nat_le_iff)
  then have "(2::rat) ^ j \<le> of_nat m - 1"
    by (simp add: mk)
  then have tgt: "(2::rat) ^ j < t"
    using down by simp
  have q_eq: "q = 1 / t"
    by (simp add: t_def)
  have tpos: "0 < t"
    using t1 by simp
  have lo: "pow2 (- int (Suc j)) \<le> q"
    unfolding pow2_neg_nat q_eq using tle tpos
    by (simp add: frac_le)
  have hi: "q < 1 / 2 ^ j"
    unfolding q_eq using tgt
    by (simp add: frac_less2)
  have "pow2 (- int (Suc j) + 1) = pow2 (- int j)"
    by simp
  then have hi2: "q < pow2 (- int (Suc j) + 1)"
    using hi by (simp only: pow2_neg_nat)
  show ?thesis
    using lo hi2 by (simp only: il) 
qed

lemma ilog2_ge:
  assumes "0 < q" "pow2 e \<le> q"
  shows "e \<le> ilog2 q"
proof -
  have "pow2 e < pow2 (ilog2 q + 1)"
    using ilog2_bounds [OF assms(1)] assms(2) by simp
  then have "e < ilog2 q + 1"
    by (rule pow2_less_cancel)
  then show ?thesis
    by simp
qed

lemma round_half_even_error: "\<bar>of_int (round_half_even x) - x\<bar> \<le> 1 / 2"
proof -
  define n where "n = \<lfloor>x\<rfloor>"
  define r where "r = x - of_int n"
  have r: "0 \<le> r" "r < 1"
    using floor_correct [of x] by (simp_all add: r_def n_def)
  have x: "x = of_int n + r"
    by (simp add: r_def)
  have rhe: "round_half_even x =
      (if r < 1 / 2 then n else if 1 / 2 < r then n + 1 else if even n then n else n + 1)"
    by (simp add: round_half_even_def Let_def n_def r_def)
  have "of_int (round_half_even x) - x =
      of_int (if r < 1 / 2 then n else if 1 / 2 < r then n + 1 else if even n then n else n + 1)
      - of_int n - r"
    by (simp only: rhe) (simp add: r_def)
  then show ?thesis
    using r by (auto simp add: abs_if)
qed

lemma pow2_Suc: "pow2 (e + 1) = 2 * pow2 e"
  using pow2_add [of e 1] by (simp add: pow2_def)

lemma pow2_neg_le_half:
  assumes "0 < p"
  shows "pow2 (- int p) \<le> 1 / 2"
proof -
  have "pow2 (- int p) \<le> pow2 (- 1)"
    using assms by (intro pow2_mono) simp
  then show ?thesis
    by (simp add: pow2_def)
qed

lemma round_pos_normal:
  assumes q: "0 < q" and lo: "pow2 emin \<le> q" and hi: "2 * q < pow2 (emax + 1)" and p: "0 < p"
  shows "\<exists>v. round_pos p emin emax q = Finite v \<and> \<bar>v - q\<bar> \<le> q * pow2 (- int p)
             \<and> q / 2 \<le> v \<and> v \<le> 2 * q"
proof -
  define e where "e = ilog2 q"
  define ulp where "ulp = pow2 (e - int p + 1)"
  define v where "v = of_int (round_half_even (q / ulp)) * ulp"
  have e_min: "emin \<le> e"
    unfolding e_def by (rule ilog2_ge [OF q lo])
  have e_le: "pow2 e \<le> q"
    using ilog2_bounds [OF q] by (simp add: e_def)
  have ulp_pos: "0 < ulp"
    by (simp add: ulp_def pow2_pos)
  have ulp_half: "ulp / 2 = pow2 e * pow2 (- int p)"
  proof -
    have "ulp = 2 * pow2 (e - int p)"
      unfolding ulp_def using pow2_Suc [of "e - int p"] by simp
    moreover have "pow2 (e - int p) = pow2 e * pow2 (- int p)"
      using pow2_add [of e "- int p"] by simp
    ultimately show ?thesis
      by simp
  qed
  have "\<bar>of_int (round_half_even (q / ulp)) - q / ulp\<bar> * ulp \<le> 1 / 2 * ulp"
    using round_half_even_error [of "q / ulp"] ulp_pos
    by (intro mult_right_mono) simp_all
  moreover have "\<bar>of_int (round_half_even (q / ulp)) - q / ulp\<bar> * ulp = \<bar>v - q\<bar>"
  proof -
    have "\<bar>of_int (round_half_even (q / ulp)) - q / ulp\<bar> * ulp
          = \<bar>(of_int (round_half_even (q / ulp)) - q / ulp) * ulp\<bar>"
      using ulp_pos by (simp add: abs_mult)
    also have "(of_int (round_half_even (q / ulp)) - q / ulp) * ulp = v - q"
      using ulp_pos by (simp add: v_def left_diff_distrib)
    finally show ?thesis .
  qed
  ultimately have err_ulp: "\<bar>v - q\<bar> \<le> ulp / 2"
    by simp
  have "pow2 e * pow2 (- int p) \<le> q * pow2 (- int p)"
    using e_le pow2_pos [of "- int p"] by (intro mult_right_mono) simp_all
  with err_ulp have err: "\<bar>v - q\<bar> \<le> q * pow2 (- int p)"
    by (simp add: ulp_half)
  have "q * pow2 (- int p) \<le> q * (1 / 2)"
    using pow2_neg_le_half [OF p] q by (intro mult_left_mono) simp_all
  with err have half: "\<bar>v - q\<bar> \<le> q / 2"
    by simp
  then have bounds: "q / 2 \<le> v" "v \<le> 2 * q"
    using q by linarith+
  then have "v < pow2 (emax + 1)"
    using hi by simp
  moreover have "q \<noteq> 0"
    using q by simp
  moreover have "max (ilog2 q) emin = e"
    using e_min by (simp add: e_def)
  ultimately have "round_pos p emin emax q = Finite v"
    by (simp add: round_pos_def Let_def ulp_def [symmetric] v_def [symmetric] not_le [symmetric]
        del: not_le)
  then show ?thesis
    using err bounds by simp
qed

section \<open>Unit conversion\<close>

text \<open>
  C3. When the four reads succeed, the record holds the library's raw values after the
  unit conversion: the temperature and the GPU utilization unchanged, the power as the
  raw milliwatts divided by 1000, and the total and the used memory as the raw bytes
  divided by \<open>2^30\<close>. The divisions are those of \<open>float32\<close>: the raw integer is
  converted to \<open>float32\<close> and the quotient is the nearest \<open>float32\<close>. A raw reading
  of 128000 milliwatts gives exactly 128 watts.
\<close>

theorem GetMetrics_converts_units:
  assumes "reads_ok lib d"
  shows "GetMetrics lib d =
   (\<lparr>Temperature = ucast (fst (nvml_GetTemperature lib (Handle d) TEMPERATURE_GPU)),
     Power = f32_div (f32_of_uint32 (fst (nvml_GetPowerUsage lib (Handle d)))) (Finite 1000),
     GpuUsage = ucast (Gpu (fst (nvml_GetUtilizationRates lib (Handle d)))),
     MemoryTotal =
       f32_div (f32_of_uint64 (Total (fst (nvml_GetMemoryInfo lib (Handle d))))) (Finite (2 ^ 30)),
     MemoryUsed =
       f32_div (f32_of_uint64 (Used (fst (nvml_GetMemoryInfo lib (Handle d))))) (Finite (2 ^ 30))\<rparr>,
    None)
   \<and> unat (Temperature (fst (GetMetrics lib d))) =
       unat (fst (nvml_GetTemperature lib (Handle d) TEMPERATURE_GPU))
   \<and> unat (GpuUsage (fst (GetMetrics lib d))) =
       unat (Gpu (fst (nvml_GetUtilizationRates lib (Handle d))))"
proof -
  have eq: "GetMetrics lib d =
   (\<lparr>Temperature = ucast (fst (nvml_GetTemperature lib (Handle d) TEMPERATURE_GPU)),
     Power = f32_div (f32_of_uint32 (fst (nvml_GetPowerUsage lib (Handle d)))) (Finite 1000),
     GpuUsage = ucast (Gpu (fst (nvml_GetUtilizationRates lib (Handle d)))),
     MemoryTotal =
       f32_div (f32_of_uint64 (Total (fst (nvml_GetMemoryInfo lib (Handle d))))) (Finite (2 ^ 30)),
     MemoryUsed =
       f32_div (f32_of_uint64 (Used (fst (nvml_GetMemoryInfo lib (Handle d))))) (Finite (2 ^ 30))\<rparr>,
    None)"
    using assms
    by (auto simp add: reads_ok_def GetMetrics_def GetTemperature_def GetPower_def
        GetUtilization_def deviceHandleErrorString_def Let_def split: prod.splits)
  have w: "unat (ucast x :: 64 word) = unat x" for x :: "32 word"
  proof -
    have "unat x < 2 ^ 32"
      using unsigned_less [of x, where ?'a = nat] by simp
    then have "unat x < 2 ^ 64"
      by simp
    then show ?thesis
      by (simp add: unsigned_ucast_eq take_bit_nat_eq_self)
  qed
  show ?thesis
    by (simp add: eq w)
qed

theorem GetMetrics_converts_units_witness:
  "reads_ok stub_lib stub_device
   \<and> fst (nvml_GetPowerUsage stub_lib (Handle stub_device)) = 128000
   \<and> GetMetrics stub_lib stub_device =
       (\<lparr>Temperature = 45, Power = Finite 128, GpuUsage = 50,
         MemoryTotal = Finite 16, MemoryUsed = Finite 4\<rparr>, None)"
proof -
  have p: "fst (nvml_GetPowerUsage stub_lib (Handle stub_device)) = 128000"
    by (simp add: stub_lib_def)
  have vals: "f32_div (f32_of_uint32 128000) (Finite 1000) = Finite 128"
    "f32_div (f32_of_uint64 17179869184) (Finite 1073741824) = Finite 16"
    "f32_div (f32_of_uint64 4294967296) (Finite 1073741824) = Finite 4"
    by (simp_all add: float_eval)
  have reads: "fst (nvml_GetTemperature stub_lib (Handle stub_device) TEMPERATURE_GPU) = 45"
    "Gpu (fst (nvml_GetUtilizationRates stub_lib (Handle stub_device))) = 50"
    "Total (fst (nvml_GetMemoryInfo stub_lib (Handle stub_device))) = 17179869184"
    "Used (fst (nvml_GetMemoryInfo stub_lib (Handle stub_device))) = 4294967296"
    by (simp_all add: stub_lib_def)
  show ?thesis
    using GetMetrics_converts_units [OF reads_ok_stub] reads_ok_stub
    by (simp add: p vals reads)
qed

end
